theory Spec2Isabelle
  imports Main
begin

section \<open>JavaScript values used by the proxy\<close>

text \<open>
  The proxy (\<^verbatim>\<open>src/proxy.js\<close>) reads query parameters and request headers that are
  either \<^verbatim>\<open>undefined\<close> or a string; they are modelled as \<open>string option\<close>. A query
  parameter is taken to occur at most once in the URL, so its parsed value is a single
  string. Strings are lists of characters; \<open>length\<close>, \<open>take\<close> and \<open>drop\<close> stand for
  \<^verbatim>\<open>.length\<close> and \<^verbatim>\<open>.substring\<close>.
\<close>

definition truthy :: "string option \<Rightarrow> bool" where
  "truthy v = (case v of None \<Rightarrow> False | Some s \<Rightarrow> s \<noteq> [])"

definition startsWith :: "string \<Rightarrow> string \<Rightarrow> bool" where
  "startsWith s p = (take (length p) s = p)"

text \<open>\<^verbatim>\<open>String.prototype.split(',')\<close>: the pieces between the commas, at least one piece.\<close>

fun split :: "char \<Rightarrow> string \<Rightarrow> string list" where
  "split c [] = [[]]"
| "split c (x # xs) =
     (if x = c then [] # split c xs
      else (case split c xs of [] \<Rightarrow> [[x]] | ys # yss \<Rightarrow> (x # ys) # yss))"

section \<open>Configuration and logging\<close>

text \<open>
  \<^verbatim>\<open>ALLOWED_ORIGINS = process.env.ALLOWED_ORIGINS ? process.env.ALLOWED_ORIGINS.split(',') : null\<close>
\<close>

definition ALLOWED_ORIGINS :: "string option \<Rightarrow> string list option" where
  "ALLOWED_ORIGINS env = (if truthy env then Some (split CHR '','' (the env)) else None)"

datatype log_level = Debug | Info | Warn | Error

datatype meta = MStr string | MBool bool | MUndefined | MObj "(string \<times> meta) list"

definition meta_of :: "string option \<Rightarrow> meta" where
  "meta_of v = (case v of None \<Rightarrow> MUndefined | Some s \<Rightarrow> MStr s)"

text \<open>\<^verbatim>\<open>maskToken\<close>: show the first 4 and the last 4 characters of a token.\<close>

definition maskToken :: "string option \<Rightarrow> string" where
  "maskToken token =
     (case token of
        None \<Rightarrow> ''****''
      | Some t \<Rightarrow>
          if t = [] \<or> length t \<le> 8 then ''****''
          else take 4 t @ ''...'' @ drop (length t - 4) t)"

section \<open>The upgrade handler: parameter and origin validation\<close>

record upgrade_request =
  query_token :: "string option"
  query_server :: "string option"
  pathname :: "string option"
  header_origin :: "string option"
  header_sec_websocket_protocol :: "string option"

datatype effect =
    Log log_level string "(string \<times> meta) list"
  | SocketWrite nat string string
  | SocketDestroy
  | Connect string "(string \<times> string) list"
  | UpstreamSend string bool
  | ClientSend string bool
  | UpstreamClose nat string
  | ClientClose nat string

datatype upgrade_result = Rejected | Accepted string string

text \<open>
  An effect is a call that a handler makes: of \<^verbatim>\<open>log\<close>, on the raw socket of an
  upgrade request, of the constructor of the upstream socket (address and headers), or
  of \<^verbatim>\<open>send\<close> and \<^verbatim>\<open>close\<close> on one of the two sockets of a session. A log call
  is kept whatever \<^verbatim>\<open>LOG_LEVEL\<close> is; of its metadata the session identifier, the
  durations and the messages of exceptions are left out.

  \<^verbatim>\<open>server.on('upgrade', ...)\<close>. \<open>SocketWrite status text body\<close> stands for
  \<^verbatim>\<open>socket.write('HTTP/1.1 <status> <text>\r\n\r\n<body>')\<close>; \<open>Accepted token server\<close> for
  the call of \<^verbatim>\<open>wss.handleUpgrade\<close> that emits \<^verbatim>\<open>'connection'\<close> with the two
  parameters. The first argument is the configured allow-list.
\<close>

definition upgrade :: "string list option \<Rightarrow> upgrade_request \<Rightarrow> effect list \<times> upgrade_result" where
  "upgrade allowed request =
     (let token = query_token request;
          upstreamServer = query_server request;
          origin = header_origin request;
          incoming = Log Info ''Incoming connection request''
            [(''origin'', meta_of origin), (''path'', meta_of (pathname request)),
             (''hasToken'', MBool (truthy token)), (''hasServer'', MBool (truthy upstreamServer))]
      in
      if \<not> truthy token then
        ([incoming, Log Warn ''Rejected: Missing token parameter'' [],
          SocketWrite 400 ''Bad Request'' ''Missing token parameter'', SocketDestroy], Rejected)
      else if \<not> truthy upstreamServer then
        ([incoming, Log Warn ''Rejected: Missing server parameter'' [],
          SocketWrite 400 ''Bad Request'' ''Missing server parameter'', SocketDestroy], Rejected)
      else if \<not> startsWith (the upstreamServer) ''ws://'' \<and> \<not> startsWith (the upstreamServer) ''wss://'' then
        ([incoming, Log Warn ''Rejected: Invalid server format'' [(''server'', meta_of upstreamServer)],
          SocketWrite 400 ''Bad Request'' ''Invalid server parameter (must start with ws:// or wss://)'',
          SocketDestroy], Rejected)
      else if allowed \<noteq> None \<and> truthy origin \<and>
              the origin \<notin> set (the allowed) \<and> ''*'' \<notin> set (the allowed) then
        ([incoming, Log Warn ''Rejected: Origin not allowed'' [(''origin'', meta_of origin)],
          SocketWrite 403 ''Forbidden'' ''Origin not allowed'', SocketDestroy], Rejected)
      else ([incoming], Accepted (the token) (the upstreamServer)))"

section \<open>The sockets of the \<^verbatim>\<open>ws\<close> library, as the proxy uses them\<close>

text \<open>
  The proxy reads \<^verbatim>\<open>readyState\<close> of its two sockets and calls \<^verbatim>\<open>send\<close> and
  \<^verbatim>\<open>close\<close> on them. The library is not part of the repository; what the handlers
  rely on is written down here. \<^verbatim>\<open>close(code, reason)\<close> returns at once on a closed
  socket, moves every other socket to \<^verbatim>\<open>CLOSING\<close>, and on an open socket throws when
  the code is not a valid status code or the reason is longer than 123 bytes.
\<close>

datatype ready_state = CONNECTING | OPEN | CLOSING | CLOSED

definition isValidStatusCode :: "nat \<Rightarrow> bool" where
  "isValidStatusCode code =
     ((1000 \<le> code \<and> code \<le> 1014 \<and> code \<noteq> 1004 \<and> code \<noteq> 1005 \<and> code \<noteq> 1006)
      \<or> (3000 \<le> code \<and> code \<le> 4999))"

text \<open>The new \<^verbatim>\<open>readyState\<close>, and whether the call threw.\<close>

definition ws_close :: "ready_state \<Rightarrow> nat \<Rightarrow> string \<Rightarrow> ready_state \<times> bool" where
  "ws_close rs code reason =
     (if rs = CLOSED then (CLOSED, False)
      else if rs = OPEN then (CLOSING, \<not> isValidStatusCode code \<or> 123 < length reason)
      else (CLOSING, False))"

section \<open>The connection handler and the session it creates\<close>

text \<open>
  The closure of \<^verbatim>\<open>wss.on('connection', ...)\<close>: \<^verbatim>\<open>isClosing\<close>,
  \<^verbatim>\<open>messageBuffer\<close>, and the \<^verbatim>\<open>readyState\<close> of \<^verbatim>\<open>upstreamWs\<close> and
  \<^verbatim>\<open>clientWs\<close>. The listeners exist only when the constructor of the upstream socket
  returned, so \<^verbatim>\<open>upstreamWs\<close> is never \<^verbatim>\<open>null\<close> inside them and the tests
  \<^verbatim>\<open>upstreamWs && ...\<close> reduce to their second operand.
\<close>

type_synonym frame = "string \<times> bool"

record session =
  upstreamWs :: ready_state
  clientWs :: ready_state
  isClosing :: bool
  messageBuffer :: "frame list"

datatype outcome = Ok session "effect list" | Uncaught "effect list"

text \<open>
  \<^verbatim>\<open>wss.on('connection', ...)\<close> up to the registration of the listeners. The argument
  \<open>constructs\<close> is the constructor \<^verbatim>\<open>new WebSocket(address, {headers, ...})\<close> of the
  library: for an address and the headers it either returns or throws an exception with a
  message (on a malformed address, or on a header value that is not allowed, such as a
  token with a line feed). When it throws, the \<^verbatim>\<open>catch\<close> block closes the client and
  no listener is registered, neither on an upstream socket, which does not exist, nor on
  the client socket, which stays alive: the result is \<open>Failed\<close> with the
  \<^verbatim>\<open>readyState\<close> of that client socket.
\<close>

datatype constructed = Returns | Throws string

datatype connection_result =
    Established session "effect list"
  | Failed ready_state "effect list"
  | Crashed "effect list"

definition connection ::
  "(string \<Rightarrow> (string \<times> string) list \<Rightarrow> constructed) \<Rightarrow> upgrade_request \<Rightarrow> string \<Rightarrow> string
     \<Rightarrow> connection_result" where
  "connection constructs request token upstreamServer =
     (let connected = Log Info ''Client connected''
            [(''server'', MStr upstreamServer), (''token'', MStr (maskToken (Some token)))];
          protocol = header_sec_websocket_protocol request;
          headers = [(''X-Auth-Token'', token)] @
            (if truthy protocol then [(''Sec-WebSocket-Protocol'', the protocol)] else []);
          connecting = Log Debug ''Connecting to upstream''
            [(''server'', MStr upstreamServer),
             (''headers'', MObj [(''X-Auth-Token'', MStr (maskToken (Some token)))])]
      in
      case constructs upstreamServer headers of
        Returns \<Rightarrow>
          Established \<lparr>upstreamWs = CONNECTING, clientWs = OPEN, isClosing = False, messageBuffer = []\<rparr>
            [connected, connecting, Connect upstreamServer headers]
      | Throws message \<Rightarrow>
          (let failed = Log Error ''Failed to create upstream connection'' [(''error'', MStr message)];
               reason = ''Failed to connect to upstream server'';
               (rs, threw) = ws_close OPEN 1011 reason
           in if threw then Crashed [connected, connecting, failed, ClientClose 1011 reason]
              else Failed rs [connected, connecting, failed, ClientClose 1011 reason]))"

text \<open>
  \<^verbatim>\<open>wss.handleUpgrade\<close> of the library stands between the upgrade handler and the
  connection handler: it completes the WebSocket handshake and emits
  \<^verbatim>\<open>'connection'\<close>, or it answers the request itself and destroys the socket. It
  refuses a request whose \<^verbatim>\<open>Sec-WebSocket-Protocol\<close> header is present and empty, which
  is not a list of subprotocol names; \<open>completes\<close> says whether its other checks pass
  (the key, the version, the names in the list), which read nothing that the handlers of
  the proxy read.
\<close>

definition handleUpgrade :: "bool \<Rightarrow> upgrade_request \<Rightarrow> bool" where
  "handleUpgrade completes request =
     (header_sec_websocket_protocol request \<noteq> Some [] \<and> completes)"

text \<open>
  The whole path of one upgrade request: validation, the handshake of the library, then
  the connection handler. The result is the calls of the proxy and the session, if one
  is established.
\<close>

definition serve ::
  "string list option \<Rightarrow> bool
     \<Rightarrow> (string \<Rightarrow> (string \<times> string) list \<Rightarrow> constructed) \<Rightarrow> upgrade_request
     \<Rightarrow> effect list \<times> session option" where
  "serve allowed completes constructs request =
     (case upgrade allowed request of
        (es, Rejected) \<Rightarrow> (es, None)
      | (es, Accepted token upstreamServer) \<Rightarrow>
          if handleUpgrade completes request then
            (case connection constructs request token upstreamServer of
               Established s es' \<Rightarrow> (es @ es', Some s)
             | Failed rs es' \<Rightarrow> (es @ es', None)
             | Crashed es' \<Rightarrow> (es @ es', None))
          else (es, None))"

section \<open>The listeners of a session\<close>

text \<open>
  Each listener takes the session and returns the session and the calls it made. Of the
  log calls of the listeners the warnings of the two \<^verbatim>\<open>catch\<close> blocks are kept; the
  others print sizes, codes, reasons and durations, never the token.
\<close>

text \<open>\<^verbatim>\<open>code || 1000\<close> and \<^verbatim>\<open>reason || ''\<close>.\<close>

definition code_or_1000 :: "nat option \<Rightarrow> nat" where
  "code_or_1000 code = (case code of None \<Rightarrow> 1000 | Some c \<Rightarrow> if c = 0 then 1000 else c)"

definition reason_or_empty :: "string option \<Rightarrow> string" where
  "reason_or_empty reason = (case reason of None \<Rightarrow> [] | Some r \<Rightarrow> r)"

text \<open>\<^verbatim>\<open>upstreamWs.on('open', ...)\<close>\<close>

definition onUpstreamOpen :: "session \<Rightarrow> outcome" where
  "onUpstreamOpen s =
     (if 0 < length (messageBuffer s) then
        Ok (s\<lparr>messageBuffer := []\<rparr>) (map (\<lambda>(data, isBinary). UpstreamSend data isBinary) (messageBuffer s))
      else Ok s [])"

text \<open>\<^verbatim>\<open>upstreamWs.on('message', ...)\<close>\<close>

definition onUpstreamMessage :: "session \<Rightarrow> string \<Rightarrow> bool \<Rightarrow> outcome" where
  "onUpstreamMessage s data isBinary =
     (if clientWs s = OPEN then Ok s [ClientSend data isBinary] else Ok s [])"

text \<open>\<^verbatim>\<open>clientWs.on('message', ...)\<close>\<close>

definition onClientMessage :: "session \<Rightarrow> string \<Rightarrow> bool \<Rightarrow> outcome" where
  "onClientMessage s data isBinary =
     (if upstreamWs s = OPEN then Ok s [UpstreamSend data isBinary]
      else Ok (s\<lparr>messageBuffer := messageBuffer s @ [(data, isBinary)]\<rparr>) [])"

text \<open>\<^verbatim>\<open>upstreamWs.on('error', ...)\<close>: the close call is outside any \<^verbatim>\<open>try\<close>.\<close>

definition onUpstreamError :: "session \<Rightarrow> outcome" where
  "onUpstreamError s =
     (if \<not> isClosing s then
        (let (rs, threw) = ws_close (clientWs s) 1011 ''Upstream connection error''
         in if threw then Uncaught [ClientClose 1011 ''Upstream connection error'']
            else Ok (s\<lparr>isClosing := True, clientWs := rs\<rparr>) [ClientClose 1011 ''Upstream connection error''])
      else Ok s [])"

text \<open>\<^verbatim>\<open>upstreamWs.on('close', ...)\<close>: an exception of the close call is caught and logged.\<close>

definition onUpstreamClose :: "session \<Rightarrow> nat option \<Rightarrow> string option \<Rightarrow> outcome" where
  "onUpstreamClose s code reason =
     (if \<not> isClosing s then
        (let (rs, threw) = ws_close (clientWs s) (code_or_1000 code) (reason_or_empty reason)
         in Ok (s\<lparr>isClosing := True, clientWs := rs\<rparr>)
              (ClientClose (code_or_1000 code) (reason_or_empty reason) #
               (if threw then [Log Warn ''Error closing client connection'' []] else [])))
      else Ok s [])"

text \<open>\<^verbatim>\<open>clientWs.on('close', ...)\<close>\<close>

definition onClientClose :: "session \<Rightarrow> nat option \<Rightarrow> string option \<Rightarrow> outcome" where
  "onClientClose s code reason =
     (if \<not> isClosing s then
        (let (rs, threw) = ws_close (upstreamWs s) (code_or_1000 code) (reason_or_empty reason)
         in Ok (s\<lparr>isClosing := True, upstreamWs := rs\<rparr>)
              (UpstreamClose (code_or_1000 code) (reason_or_empty reason) #
               (if threw then [Log Warn ''Error closing upstream connection'' []] else [])))
      else Ok s [])"

text \<open>\<^verbatim>\<open>clientWs.on('error', ...)\<close>: the close call is outside any \<^verbatim>\<open>try\<close>.\<close>

definition onClientError :: "session \<Rightarrow> outcome" where
  "onClientError s =
     (if \<not> isClosing s then
        (let (rs, threw) = ws_close (upstreamWs s) 1011 ''Client connection error''
         in if threw then Uncaught [UpstreamClose 1011 ''Client connection error'']
            else Ok (s\<lparr>isClosing := True, upstreamWs := rs\<rparr>) [UpstreamClose 1011 ''Client connection error''])
      else Ok s [])"

section \<open>Events of a session\<close>

text \<open>
  The library changes \<^verbatim>\<open>readyState\<close> before it emits an event: to \<^verbatim>\<open>OPEN\<close>
  for \<^verbatim>\<open>'open'\<close>, to \<^verbatim>\<open>CLOSED\<close> for \<^verbatim>\<open>'close'\<close>, and a socket that
  emits \<^verbatim>\<open>'error'\<close> is \<^verbatim>\<open>CLOSING\<close>. It also moves an open socket to
  \<^verbatim>\<open>CLOSING\<close> without emitting anything, when the close frame of the peer arrives or
  the connection under it fails; the \<^verbatim>\<open>'close'\<close> event follows later. These silent
  changes are the events \<open>UpstreamClosing\<close> and \<open>ClientClosing\<close>, for which no listener
  runs. \<open>deliver\<close> applies the change of an event and then runs the proxy's listener.
\<close>

datatype event =
    UpstreamOpen
  | UpstreamMessage string bool
  | ClientMessage string bool
  | UpstreamError
  | UpstreamClosed "nat option" "string option"
  | ClientClosed "nat option" "string option"
  | ClientError
  | UpstreamClosing
  | ClientClosing

fun deliver :: "session \<Rightarrow> event \<Rightarrow> outcome" where
  "deliver s UpstreamOpen = onUpstreamOpen (s\<lparr>upstreamWs := OPEN\<rparr>)"
| "deliver s (UpstreamMessage data isBinary) = onUpstreamMessage s data isBinary"
| "deliver s (ClientMessage data isBinary) = onClientMessage s data isBinary"
| "deliver s UpstreamError = onUpstreamError (s\<lparr>upstreamWs := CLOSING\<rparr>)"
| "deliver s (UpstreamClosed code reason) = onUpstreamClose (s\<lparr>upstreamWs := CLOSED\<rparr>) code reason"
| "deliver s (ClientClosed code reason) = onClientClose (s\<lparr>clientWs := CLOSED\<rparr>) code reason"
| "deliver s ClientError = onClientError (s\<lparr>clientWs := CLOSING\<rparr>)"
| "deliver s UpstreamClosing =
     Ok (s\<lparr>upstreamWs := (if upstreamWs s = OPEN then CLOSING else upstreamWs s)\<rparr>) []"
| "deliver s ClientClosing =
     Ok (s\<lparr>clientWs := (if clientWs s = OPEN then CLOSING else clientWs s)\<rparr>) []"

text \<open>
  What a socket can emit in a given state: \<^verbatim>\<open>'open'\<close> only while connecting, messages
  only once it has opened and before it is closed, \<^verbatim>\<open>'close'\<close> once; the silent change
  to \<^verbatim>\<open>CLOSING\<close> happens to an open socket.
\<close>

fun possible :: "session \<Rightarrow> event \<Rightarrow> bool" where
  "possible s UpstreamOpen = (upstreamWs s = CONNECTING)"
| "possible s (UpstreamMessage data isBinary) = (upstreamWs s = OPEN \<or> upstreamWs s = CLOSING)"
| "possible s (ClientMessage data isBinary) = (clientWs s = OPEN \<or> clientWs s = CLOSING)"
| "possible s UpstreamError = (upstreamWs s \<noteq> CLOSED)"
| "possible s (UpstreamClosed code reason) = (upstreamWs s \<noteq> CLOSED)"
| "possible s (ClientClosed code reason) = (clientWs s \<noteq> CLOSED)"
| "possible s ClientError = (clientWs s \<noteq> CLOSED)"
| "possible s UpstreamClosing = (upstreamWs s = OPEN)"
| "possible s ClientClosing = (clientWs s = OPEN)"

text \<open>A run of events; an uncaught exception ends it (the process exits).\<close>

fun run :: "session \<Rightarrow> event list \<Rightarrow> outcome" where
  "run s [] = Ok s []"
| "run s (e # es) =
     (case deliver s e of
        Uncaught fx \<Rightarrow> Uncaught fx
      | Ok s' fx \<Rightarrow>
          (case run s' es of
             Ok s'' fx' \<Rightarrow> Ok s'' (fx @ fx')
           | Uncaught fx' \<Rightarrow> Uncaught (fx @ fx')))"

fun feasible :: "session \<Rightarrow> event list \<Rightarrow> bool" where
  "feasible s [] = True"
| "feasible s (e # es) =
     (possible s e \<and> (case deliver s e of Ok s' fx \<Rightarrow> feasible s' es | Uncaught fx \<Rightarrow> es = []))"

fun effects_of :: "outcome \<Rightarrow> effect list" where
  "effects_of (Ok s fx) = fx"
| "effects_of (Uncaught fx) = fx"

fun state_of :: "outcome \<Rightarrow> session option" where
  "state_of (Ok s fx) = Some s"
| "state_of (Uncaught fx) = None"

fun is_close_call :: "effect \<Rightarrow> bool" where
  "is_close_call (UpstreamClose code reason) = True"
| "is_close_call (ClientClose code reason) = True"
| "is_close_call e = False"

fun is_send :: "effect \<Rightarrow> bool" where
  "is_send (UpstreamSend data isBinary) = True"
| "is_send (ClientSend data isBinary) = True"
| "is_send e = False"

fun is_connect :: "effect \<Rightarrow> bool" where
  "is_connect (Connect address headers) = True"
| "is_connect e = False"

fun is_write :: "effect \<Rightarrow> bool" where
  "is_write (SocketWrite status text body) = True"
| "is_write e = False"

fun is_log :: "effect \<Rightarrow> bool" where
  "is_log (Log level message m) = True"
| "is_log e = False"


text \<open>The frames of the client's \<^verbatim>\<open>'message'\<close> events, in arrival order.\<close>

fun client_frames :: "event list \<Rightarrow> frame list" where
  "client_frames [] = []"
| "client_frames (ClientMessage data isBinary # es) = (data, isBinary) # client_frames es"
| "client_frames (e # es) = client_frames es"

fun close_trigger :: "event \<Rightarrow> bool" where
  "close_trigger UpstreamError = True"
| "close_trigger (UpstreamClosed code reason) = True"
| "close_trigger (ClientClosed code reason) = True"
| "close_trigger ClientError = True"
| "close_trigger e = False"

definition client_message :: "frame \<Rightarrow> event" where
  "client_message f = ClientMessage (fst f) (snd f)"

text \<open>
  The close call the coordinator owes the opposite leg for a close-trigger, in the words of
  the specification: an explicit code and reason are passed on as they are, an absent code
  becomes 1000 and an absent reason the empty string, and an error becomes code 1011.
\<close>

fun propagated_close :: "event \<Rightarrow> effect" where
  "propagated_close UpstreamError = ClientClose 1011 ''Upstream connection error''"
| "propagated_close ClientError = UpstreamClose 1011 ''Client connection error''"
| "propagated_close (UpstreamClosed code reason) =
     ClientClose (case code of None \<Rightarrow> 1000 | Some c \<Rightarrow> c) (case reason of None \<Rightarrow> [] | Some r \<Rightarrow> r)"
| "propagated_close (ClientClosed code reason) =
     UpstreamClose (case code of None \<Rightarrow> 1000 | Some c \<Rightarrow> c) (case reason of None \<Rightarrow> [] | Some r \<Rightarrow> r)"
| "propagated_close e = Log Debug [] []"

text \<open>A close event whose code is the number 0, which JavaScript's \<^verbatim>\<open>||\<close> treats as absent.\<close>

fun zero_code :: "event \<Rightarrow> bool" where
  "zero_code (UpstreamClosed code reason) = (code = Some 0)"
| "zero_code (ClientClosed code reason) = (code = Some 0)"
| "zero_code e = False"


fun before_open :: "event \<Rightarrow> bool" where
  "before_open (ClientMessage data isBinary) = True"
| "before_open ClientClosing = True"
| "before_open e = False"

text \<open>
  The client socket that \<open>connection\<close> leaves behind when the constructor has thrown: it
  has no listener. An emitter drops an event that has no listener, except
  \<^verbatim>\<open>'error'\<close>, which it throws as an exception; nothing catches it. There is no
  upstream socket, so only the client's events occur.
\<close>

datatype orphan_outcome = Quiet ready_state | Unhandled

fun deliver_orphan :: "ready_state \<Rightarrow> event \<Rightarrow> orphan_outcome" where
  "deliver_orphan c ClientError = Unhandled"
| "deliver_orphan c (ClientClosed code reason) = Quiet CLOSED"
| "deliver_orphan c ClientClosing = Quiet (if c = OPEN then CLOSING else c)"
| "deliver_orphan c e = Quiet c"

fun possible_orphan :: "ready_state \<Rightarrow> event \<Rightarrow> bool" where
  "possible_orphan c (ClientMessage data isBinary) = (c = OPEN \<or> c = CLOSING)"
| "possible_orphan c (ClientClosed code reason) = (c \<noteq> CLOSED)"
| "possible_orphan c ClientError = (c \<noteq> CLOSED)"
| "possible_orphan c ClientClosing = (c = OPEN)"
| "possible_orphan c e = False"


text \<open>The session that \<open>connection\<close> establishes.\<close>

definition fresh :: session where
  "fresh = \<lparr>upstreamWs = CONNECTING, clientWs = OPEN, isClosing = False, messageBuffer = []\<rparr>"

section \<open>No listener throws\<close>

lemmas handler_defs = onUpstreamOpen_def onUpstreamMessage_def onClientMessage_def
  onUpstreamError_def onUpstreamClose_def onClientClose_def onClientError_def

lemma deliver_Ok: "\<exists>s' fx. deliver s e = Ok s' fx"
  by (cases e) (simp_all add: handler_defs ws_close_def isValidStatusCode_def split: prod.splits)

lemma run_Ok: "\<exists>s' fx. run s es = Ok s' fx"
proof (induction es arbitrary: s)
  case Nil
  show ?case by simp
next
  case (Cons e es)
  obtain s1 fx1 where d: "deliver s e = Ok s1 fx1" using deliver_Ok by blast
  obtain s2 fx2 where r: "run s1 es = Ok s2 fx2" using Cons.IH by blast
  show ?case by (simp add: d r)
qed

section \<open>One-shot close propagation\<close>

lemma drain_no_close [simp]:
  "filter is_close_call (map (\<lambda>(data, isBinary). UpstreamSend data isBinary) fs) = []"
  by (induction fs) auto

lemma closing_deliver:
  "isClosing s \<Longrightarrow> deliver s e = Ok s' fx \<Longrightarrow> isClosing s' \<and> filter is_close_call fx = []"
  by (cases e) (auto simp add: handler_defs split: if_splits)

lemma quiet_deliver:
  "\<not> isClosing s \<Longrightarrow> \<not> close_trigger e \<Longrightarrow> deliver s e = Ok s' fx \<Longrightarrow>
     \<not> isClosing s' \<and> filter is_close_call fx = []"
  by (cases e) (auto simp add: handler_defs split: if_splits)

lemma trigger_deliver:
  "\<not> isClosing s \<Longrightarrow> close_trigger e \<Longrightarrow> \<not> zero_code e \<Longrightarrow> deliver s e = Ok s' fx \<Longrightarrow>
     isClosing s' \<and> filter is_close_call fx = [propagated_close e]"
  by (cases e)
     (auto simp add: handler_defs code_or_1000_def reason_or_empty_def
           split: if_splits prod.splits option.splits)

lemma closing_state:
  "isClosing s \<Longrightarrow> \<exists>s'. state_of (run s es) = Some s' \<and> isClosing s'"
proof (induction es arbitrary: s)
  case Nil
  then show ?case by simp
next
  case (Cons e es)
  obtain s1 fx1 where d: "deliver s e = Ok s1 fx1" using deliver_Ok by blast
  obtain s2 fx2 where r: "run s1 es = Ok s2 fx2" using run_Ok by blast
  from closing_deliver [OF Cons.prems d] have c: "isClosing s1" by simp
  from Cons.IH [OF c] r show ?case by (simp add: d r)
qed

lemma closing_run:
  "isClosing s \<Longrightarrow> filter is_close_call (effects_of (run s es)) = []"
proof (induction es arbitrary: s)
  case Nil
  show ?case by simp
next
  case (Cons e es)
  obtain s1 fx1 where d: "deliver s e = Ok s1 fx1" using deliver_Ok by blast
  obtain s2 fx2 where r: "run s1 es = Ok s2 fx2" using run_Ok by blast
  from closing_deliver [OF Cons.prems d] have c: "isClosing s1" and f: "filter is_close_call fx1 = []" by simp_all
  from Cons.IH [OF c] r have "filter is_close_call fx2 = []" by simp
  with f show ?case by (simp add: d r)
qed

lemma open_run:
  "\<not> isClosing s \<Longrightarrow> \<forall>e \<in> set es. \<not> zero_code e \<Longrightarrow>
     filter is_close_call (effects_of (run s es)) =
        (case find close_trigger es of None \<Rightarrow> [] | Some e \<Rightarrow> [propagated_close e])
     \<and> (\<exists>s'. state_of (run s es) = Some s' \<and> (isClosing s' \<longleftrightarrow> find close_trigger es \<noteq> None))"
proof (induction es arbitrary: s)
  case Nil
  then show ?case by simp
next
  case (Cons e es)
  obtain s1 fx1 where d: "deliver s e = Ok s1 fx1" using deliver_Ok by blast
  obtain s2 fx2 where r: "run s1 es = Ok s2 fx2" using run_Ok by blast
  show ?case
  proof (cases "close_trigger e")
    case True
    from Cons.prems have "\<not> zero_code e" by simp
    from trigger_deliver [OF Cons.prems(1) True this d]
    have c: "isClosing s1" and f: "filter is_close_call fx1 = [propagated_close e]" by simp_all
    from closing_run [OF c, of es] r have f2: "filter is_close_call fx2 = []" by simp
    from closing_state [OF c, of es] r have "isClosing s2" by simp
    with f f2 True show ?thesis by (simp add: d r)
  next
    case False
    from quiet_deliver [OF Cons.prems(1) False d]
    have c: "\<not> isClosing s1" and f: "filter is_close_call fx1 = []" by simp_all
    from Cons.prems have "\<forall>e \<in> set es. \<not> zero_code e" by simp
    from Cons.IH [OF c this] r f False show ?thesis by (simp add: d r)
  qed
qed


text \<open>
  Claim C1. In every run of a session that starts with the latch unset, the close calls
  made on the two legs are exactly one call, the one owed for the first close-trigger of
  the run (code and reason of a close event passed on as they are, 1000 for an absent
  code, the empty reason for an absent one, 1011 for an error), and the latch is set from
  then on; when there is no close-trigger no close call is made. In a run that starts
  with the latch set, no close call is made at all. A numeric code 0 counts as absent
  for \<^verbatim>\<open>||\<close>, so the statement is about events whose code is not 0.
\<close>

theorem one_shot_close_propagation:
  "(\<not> isClosing s \<and> (\<forall>e \<in> set es. \<not> zero_code e) \<longrightarrow>
      filter is_close_call (effects_of (run s es)) =
        (case find close_trigger es of None \<Rightarrow> [] | Some e \<Rightarrow> [propagated_close e])
      \<and> (\<exists>s'. state_of (run s es) = Some s' \<and> (isClosing s' \<longleftrightarrow> find close_trigger es \<noteq> None)))
   \<and> (isClosing s \<longrightarrow>
      filter is_close_call (effects_of (run s es)) = []
      \<and> (\<exists>s'. state_of (run s es) = Some s' \<and> isClosing s'))"
  using open_run [of s es] closing_run [of s es] closing_state [of s es] by blast

theorem one_shot_close_propagation_witness:
  "\<not> isClosing fresh
   \<and> \<not> zero_code UpstreamOpen \<and> \<not> zero_code (UpstreamClosed (Some 1000) (Some ''done''))
   \<and> \<not> zero_code ClientError
   \<and> filter is_close_call
        (effects_of (run fresh [UpstreamOpen, UpstreamClosed (Some 1000) (Some ''done''), ClientError]))
      = [ClientClose 1000 ''done'']"
  using one_shot_close_propagation
    [of fresh "[UpstreamOpen, UpstreamClosed (Some 1000) (Some ''done''), ClientError]"]
  by (simp add: fresh_def)

section \<open>Buffering, draining and the order of delivery\<close>












text \<open>
  The shape of a run in which the upstream socket opens: the socket opens once, and in a
  session whose latch is unset the events before that are frames of the client and the
  silent closing of the client socket, since any close-trigger takes the upstream socket
  out of \<^verbatim>\<open>CONNECTING\<close> for good.
\<close>

lemma deliver_not_connecting:
  "upstreamWs s \<noteq> CONNECTING \<Longrightarrow> deliver s e = Ok s' fx \<Longrightarrow> upstreamWs s' \<noteq> CONNECTING"
  by (cases e) (auto simp add: handler_defs ws_close_def split: if_splits)

lemma no_open_after_connecting:
  "upstreamWs s \<noteq> CONNECTING \<Longrightarrow> \<not> feasible s (es @ UpstreamOpen # post)"
proof (induction es arbitrary: s)
  case Nil
  then show ?case by simp
next
  case (Cons e es)
  obtain s1 fx1 where d: "deliver s e = Ok s1 fx1" using deliver_Ok by blast
  from deliver_not_connecting [OF Cons.prems d] have "upstreamWs s1 \<noteq> CONNECTING" .
  from Cons.IH [OF this] show ?case by (simp add: d)
qed

lemma deliver_keeps_connecting:
  "upstreamWs s = CONNECTING \<and> \<not> isClosing s \<Longrightarrow> possible s e \<Longrightarrow> deliver s e = Ok s' fx \<Longrightarrow>
     upstreamWs s' = CONNECTING \<Longrightarrow> \<not> isClosing s' \<and> before_open e"
  by (cases e) (auto simp add: handler_defs ws_close_def split: if_splits)

lemma only_client_events_before_open:
  "upstreamWs s = CONNECTING \<and> \<not> isClosing s \<Longrightarrow> feasible s (es @ UpstreamOpen # post) \<Longrightarrow>
     \<forall>e \<in> set es. before_open e"
proof (induction es arbitrary: s)
  case Nil
  then show ?case by simp
next
  case (Cons e es)
  obtain s1 fx1 where d: "deliver s e = Ok s1 fx1" using deliver_Ok by blast
  from Cons.prems(2) d have p: "possible s e" and f: "feasible s1 (es @ UpstreamOpen # post)" by simp_all
  from f no_open_after_connecting [of s1 es post] have c: "upstreamWs s1 = CONNECTING" by blast
  from deliver_keeps_connecting [OF Cons.prems(1) p d c]
  have n: "\<not> isClosing s1" and b: "before_open e" by simp_all
  from Cons.IH [of s1] c n f have "\<forall>e \<in> set es. before_open e" by simp
  with b show ?case by simp
qed

lemma at_most_one_open:
  "feasible s (es @ UpstreamOpen # post) \<Longrightarrow> UpstreamOpen \<notin> set post"
proof (induction es arbitrary: s)
  case Nil
  obtain s1 fx1 where d: "deliver s UpstreamOpen = Ok s1 fx1" using deliver_Ok by blast
  then have o: "upstreamWs s1 \<noteq> CONNECTING" by (auto simp add: onUpstreamOpen_def split: if_splits)
  from Nil d have f: "feasible s1 post" by simp
  show ?case
  proof
    assume "UpstreamOpen \<in> set post"
    then obtain xs ys where "post = xs @ UpstreamOpen # ys" by (auto simp add: in_set_conv_decomp)
    with f no_open_after_connecting [OF o, of xs ys] show False by simp
  qed
next
  case (Cons e es)
  obtain s1 fx1 where d: "deliver s e = Ok s1 fx1" using deliver_Ok by blast
  from Cons.prems d have "feasible s1 (es @ UpstreamOpen # post)" by simp
  from Cons.IH [OF this] show ?case .
qed






section \<open>Frames from upstream to the client\<close>

text \<open>
  Claim C8. A frame that arrives from upstream while the client socket is not open is
  dropped: nothing is sent, nothing is buffered, the session is unchanged and no
  exception is raised. A frame that arrives while the client socket is open is handed to
  the client as it is, with its binary flag.
\<close>

theorem lossy_forwarding:
  "(clientWs s \<noteq> OPEN \<longrightarrow> deliver s (UpstreamMessage data isBinary) = Ok s [])
   \<and> (clientWs s = OPEN \<longrightarrow> deliver s (UpstreamMessage data isBinary) = Ok s [ClientSend data isBinary])"
  by (simp add: onUpstreamMessage_def)

theorem lossy_forwarding_witness:
  "clientWs (fresh\<lparr>clientWs := CLOSING\<rparr>) \<noteq> OPEN
   \<and> deliver (fresh\<lparr>clientWs := CLOSING\<rparr>) (UpstreamMessage ''tick'' True) = Ok (fresh\<lparr>clientWs := CLOSING\<rparr>) []
   \<and> clientWs fresh = OPEN
   \<and> deliver fresh (UpstreamMessage ''tick'' True) = Ok fresh [ClientSend ''tick'' True]"
  using lossy_forwarding [of "fresh\<lparr>clientWs := CLOSING\<rparr>" "''tick''" True]
    lossy_forwarding [of fresh "''tick''" True]
  by (simp add: fresh_def)

section \<open>Errors\<close>

lemma drain_no_connect [simp]:
  "filter is_connect (map (\<lambda>(data, isBinary). UpstreamSend data isBinary) fs) = []"
  by (induction fs) auto

lemma deliver_no_connect: "deliver s e = Ok s' fx \<Longrightarrow> filter is_connect fx = []"
  by (cases e) (auto simp add: handler_defs split: if_splits prod.splits)

lemma run_no_connect: "run s es = Ok s' fx \<Longrightarrow> filter is_connect fx = []"
proof (induction es arbitrary: s s' fx)
  case Nil
  then show ?case by simp
next
  case (Cons e es)
  obtain s1 fx1 where d: "deliver s e = Ok s1 fx1" using deliver_Ok by blast
  obtain s2 fx2 where r: "run s1 es = Ok s2 fx2" using run_Ok by blast
  from Cons.prems d r have eq: "fx = fx1 @ fx2" by simp
  from deliver_no_connect [OF d] Cons.IH [OF r] eq show ?case by simp
qed

text \<open>
  What holds of the error paths. An error of either socket of a session whose latch is
  unset closes the other socket with code 1011; a constructor that throws has the client
  closed with code 1011, no upstream connection opened and the client socket left in
  \<^verbatim>\<open>CLOSING\<close>; the connection handler itself never throws; and no run of events of an
  established session throws or opens another upstream connection.
\<close>

lemma upstream_error_mapped:
  "\<not> isClosing s \<Longrightarrow>
     \<exists>s'. deliver s UpstreamError = Ok s' [ClientClose 1011 ''Upstream connection error''] \<and> isClosing s'"
  by (simp add: onUpstreamError_def ws_close_def isValidStatusCode_def)

lemma client_error_mapped:
  "\<not> isClosing s \<Longrightarrow>
     \<exists>s'. deliver s ClientError = Ok s' [UpstreamClose 1011 ''Client connection error''] \<and> isClosing s'"
  by (simp add: onClientError_def ws_close_def isValidStatusCode_def)

lemma connection_failed:
  "constructs upstreamServer
      ([(''X-Auth-Token'', token)] @
       (if truthy (header_sec_websocket_protocol request)
        then [(''Sec-WebSocket-Protocol'', the (header_sec_websocket_protocol request))] else []))
     = Throws message \<Longrightarrow>
     \<exists>fx. connection constructs request token upstreamServer = Failed CLOSING fx
       \<and> filter is_close_call fx = [ClientClose 1011 ''Failed to connect to upstream server'']
       \<and> filter is_connect fx = []"
  by (simp add: connection_def ws_close_def isValidStatusCode_def Let_def)

lemma connection_never_crashes:
  "connection constructs request token upstreamServer \<noteq> Crashed fx"
  by (simp add: connection_def ws_close_def isValidStatusCode_def Let_def split: constructed.splits)

lemma established_session_never_throws:
  "\<exists>s' fx. run s es = Ok s' fx \<and> filter is_connect fx = []"
  using run_Ok [of s es] run_no_connect [of s es] by blast

text \<open>
  Claim C7. The server process does not survive every one of these cases. The listeners
  of the client socket are registered inside the \<^verbatim>\<open>try\<close> block, after the constructor
  of the upstream socket. When the constructor throws, as it does for the address
  \<^verbatim>\<open>ws://\<close>, which passes validation, the client is closed with code 1011 but its socket
  stays alive without an \<^verbatim>\<open>'error'\<close> listener, and an error that it reports next is
  thrown as an exception that nothing catches.
\<close>

theorem orphan_client_error_unhandled:
  "snd (upgrade None \<lparr>query_token = Some ''secret-token'', query_server = Some ''ws://'',
          pathname = Some ''/'', header_origin = None, header_sec_websocket_protocol = None\<rparr>)
     = Accepted ''secret-token'' ''ws://''
   \<and> connection (\<lambda>address headers. if address = ''ws://'' then Throws ''Invalid URL: ws://'' else Returns)
        \<lparr>query_token = Some ''secret-token'', query_server = Some ''ws://'',
          pathname = Some ''/'', header_origin = None, header_sec_websocket_protocol = None\<rparr>
        ''secret-token'' ''ws://''
     = Failed CLOSING
        [Log Info ''Client connected'' [(''server'', MStr ''ws://''), (''token'', MStr ''secr...oken'')],
         Log Debug ''Connecting to upstream''
           [(''server'', MStr ''ws://''), (''headers'', MObj [(''X-Auth-Token'', MStr ''secr...oken'')])],
         Log Error ''Failed to create upstream connection'' [(''error'', MStr ''Invalid URL: ws://'')],
         ClientClose 1011 ''Failed to connect to upstream server'']
   \<and> possible_orphan CLOSING ClientError
   \<and> deliver_orphan CLOSING ClientError = Unhandled"
  by (simp add: upgrade_def connection_def truthy_def startsWith_def maskToken_def ws_close_def
      isValidStatusCode_def)

section \<open>Client frames after the upstream socket has closed\<close>

lemma closed_deliver:
  "upstreamWs s = CLOSED \<Longrightarrow> possible s e \<Longrightarrow> deliver s e = Ok s' fx \<Longrightarrow>
     upstreamWs s' = CLOSED \<and> filter is_send fx = []
     \<and> messageBuffer s' = messageBuffer s @ client_frames [e]"
  by (cases e) (auto simp add: handler_defs ws_close_def split: if_splits)

text \<open>
  Claim C10. Once the upstream socket is closed, in every sequence of events that the two
  sockets can still emit, each frame of the client is appended to the buffer in arrival
  order, no frame is sent to either peer, and no exception is raised: the listener tests
  whether the upstream socket is open now, and only the \<^verbatim>\<open>'open'\<close> event, which a
  closed socket does not emit, drains the buffer.
\<close>

theorem post_close_rebuffering:
  assumes "upstreamWs s = CLOSED" and "feasible s es"
  shows "\<exists>s' fx. run s es = Ok s' fx \<and> filter is_send fx = []
           \<and> messageBuffer s' = messageBuffer s @ client_frames es"
  using assms
proof (induction es arbitrary: s)
  case Nil
  then show ?case by simp
next
  case (Cons e es)
  obtain s1 fx1 where d: "deliver s e = Ok s1 fx1" using deliver_Ok by blast
  from Cons.prems(2) d have p: "possible s e" and f: "feasible s1 es" by simp_all
  from closed_deliver [OF Cons.prems(1) p d]
  have c: "upstreamWs s1 = CLOSED" and n: "filter is_send fx1 = []"
    and b: "messageBuffer s1 = messageBuffer s @ client_frames [e]" by simp_all
  from Cons.IH [OF c f] obtain s2 fx2 where r: "run s1 es = Ok s2 fx2"
    and n2: "filter is_send fx2 = []" and b2: "messageBuffer s2 = messageBuffer s1 @ client_frames es"
    by blast
  have "messageBuffer s2 = messageBuffer s @ client_frames (e # es)"
    unfolding b2 b by (cases e) simp_all
  with n n2 show ?case by (simp add: d r)
qed

theorem post_close_rebuffering_witness:
  "state_of (run fresh [UpstreamOpen, UpstreamClosed (Some 1000) (Some ''done'')])
     = Some \<lparr>upstreamWs = CLOSED, clientWs = CLOSING, isClosing = True, messageBuffer = []\<rparr>
   \<and> upstreamWs \<lparr>upstreamWs = CLOSED, clientWs = CLOSING, isClosing = True, messageBuffer = []\<rparr> = CLOSED
   \<and> feasible \<lparr>upstreamWs = CLOSED, clientWs = CLOSING, isClosing = True, messageBuffer = []\<rparr>
       [ClientMessage ''late'' False, ClientClosed (Some 1000) None]
   \<and> (\<exists>s' fx. run \<lparr>upstreamWs = CLOSED, clientWs = CLOSING, isClosing = True, messageBuffer = []\<rparr>
          [ClientMessage ''late'' False, ClientClosed (Some 1000) None] = Ok s' fx
        \<and> filter is_send fx = [] \<and> messageBuffer s' = [(''late'', False)])"
proof -
  let ?s = "\<lparr>upstreamWs = CLOSED, clientWs = CLOSING, isClosing = True, messageBuffer = []\<rparr>"
  let ?es = "[ClientMessage ''late'' False, ClientClosed (Some 1000) None]"
  have h1: "upstreamWs ?s = CLOSED" by simp
  have h2: "feasible ?s ?es" by (simp add: handler_defs)
  have r: "state_of (run fresh [UpstreamOpen, UpstreamClosed (Some 1000) (Some ''done'')]) = Some ?s"
    by (simp add: fresh_def handler_defs ws_close_def isValidStatusCode_def
        code_or_1000_def reason_or_empty_def)
  from post_close_rebuffering [OF h1 h2] r h1 h2 show ?thesis by simp
qed

text \<open>
  Claim C4. The buffer is drained when the upstream socket opens, but it does not stay
  empty: here the frame \<open>A\<close> is buffered and drained, the upstream socket closes, and the
  frame \<open>x\<close> that the client sent meanwhile is appended to the buffer, which is then
  non-empty although the upstream socket has opened.
\<close>

theorem buffer_refilled_after_drain:
  "feasible fresh [ClientMessage ''A'' False, UpstreamOpen, UpstreamClosed (Some 1000) (Some ''done''),
       ClientMessage ''x'' False]
   \<and> run fresh [ClientMessage ''A'' False, UpstreamOpen, UpstreamClosed (Some 1000) (Some ''done''),
       ClientMessage ''x'' False]
     = Ok \<lparr>upstreamWs = CLOSED, clientWs = CLOSING, isClosing = True, messageBuffer = [(''x'', False)]\<rparr>
          [UpstreamSend ''A'' False, ClientClose 1000 ''done'']"
  by (simp add: fresh_def handler_defs ws_close_def isValidStatusCode_def
      code_or_1000_def reason_or_empty_def)

section \<open>Parameter validation\<close>

lemma reject_missing_token:
  "query_token r = None \<or> query_token r = Some [] \<Longrightarrow>
     snd (upgrade allowed r) = Rejected
     \<and> filter is_write (fst (upgrade allowed r)) = [SocketWrite 400 ''Bad Request'' ''Missing token parameter'']"
  by (auto simp add: upgrade_def truthy_def Let_def)

lemma reject_missing_server:
  "query_token r = Some t \<Longrightarrow> t \<noteq> [] \<Longrightarrow> query_server r = None \<or> query_server r = Some [] \<Longrightarrow>
     snd (upgrade allowed r) = Rejected
     \<and> filter is_write (fst (upgrade allowed r)) = [SocketWrite 400 ''Bad Request'' ''Missing server parameter'']"
  by (auto simp add: upgrade_def truthy_def Let_def)

lemma reject_invalid_server:
  "query_token r = Some t \<Longrightarrow> t \<noteq> [] \<Longrightarrow> query_server r = Some sv \<Longrightarrow> sv \<noteq> [] \<Longrightarrow>
   \<not> startsWith sv ''ws://'' \<Longrightarrow> \<not> startsWith sv ''wss://'' \<Longrightarrow>
     snd (upgrade allowed r) = Rejected
     \<and> filter is_write (fst (upgrade allowed r)) =
         [SocketWrite 400 ''Bad Request'' ''Invalid server parameter (must start with ws:// or wss://)'']"
  by (simp add: upgrade_def truthy_def Let_def)

lemma rejected_no_session:
  "snd (upgrade allowed r) = Rejected \<Longrightarrow>
     snd (serve allowed completes constructs r) = None
     \<and> filter is_connect (fst (serve allowed completes constructs r)) = []"
  by (auto simp add: serve_def upgrade_def Let_def split: if_splits)

text \<open>
  Claim C5, as the code has it. The rules apply in this order and the first failure wins:
  a missing or empty \<^verbatim>\<open>token\<close> is answered with status 400 and the body
  "Missing token parameter"; otherwise a missing or empty \<^verbatim>\<open>server\<close> with status 400
  and the body "Missing server parameter"; otherwise a \<^verbatim>\<open>server\<close> that starts neither
  with \<^verbatim>\<open>ws://\<close> nor with \<^verbatim>\<open>wss://\<close> (compared character by character) with
  status 400 and the body "Invalid server parameter (must start with ws:// or wss://)".
  A rejected request creates no session and opens no upstream connection.
\<close>

theorem parameter_validation:
  "((query_token r = None \<or> query_token r = Some []) \<longrightarrow>
      snd (upgrade allowed r) = Rejected
      \<and> filter is_write (fst (upgrade allowed r)) = [SocketWrite 400 ''Bad Request'' ''Missing token parameter''])
   \<and> (query_token r = Some t \<and> t \<noteq> [] \<and> (query_server r = None \<or> query_server r = Some []) \<longrightarrow>
      snd (upgrade allowed r) = Rejected
      \<and> filter is_write (fst (upgrade allowed r)) = [SocketWrite 400 ''Bad Request'' ''Missing server parameter''])
   \<and> (query_token r = Some t \<and> t \<noteq> [] \<and> query_server r = Some sv \<and> sv \<noteq> []
        \<and> \<not> startsWith sv ''ws://'' \<and> \<not> startsWith sv ''wss://'' \<longrightarrow>
      snd (upgrade allowed r) = Rejected
      \<and> filter is_write (fst (upgrade allowed r)) =
          [SocketWrite 400 ''Bad Request'' ''Invalid server parameter (must start with ws:// or wss://)''])
   \<and> (snd (upgrade allowed r) = Rejected \<longrightarrow>
      snd (serve allowed completes constructs r) = None
      \<and> filter is_connect (fst (serve allowed completes constructs r)) = [])"
  using reject_missing_token [of r allowed] reject_missing_server [of r t allowed]
    reject_invalid_server [of r t sv allowed] rejected_no_session [of allowed r completes constructs]
  by blast


theorem parameter_validation_witness:
  "snd (upgrade None \<lparr>query_token = Some [], query_server = None, pathname = Some ''/'',
          header_origin = None, header_sec_websocket_protocol = None\<rparr>) = Rejected
   \<and> filter is_write (fst (upgrade None \<lparr>query_token = Some [], query_server = None, pathname = Some ''/'',
          header_origin = None, header_sec_websocket_protocol = None\<rparr>))
       = [SocketWrite 400 ''Bad Request'' ''Missing token parameter'']
   \<and> snd (serve None True (\<lambda>address headers. Returns)
          \<lparr>query_token = Some [], query_server = None, pathname = Some ''/'',
          header_origin = None, header_sec_websocket_protocol = None\<rparr>) = None
   \<and> filter is_connect (fst (serve None True (\<lambda>address headers. Returns)
          \<lparr>query_token = Some [], query_server = None,
          pathname = Some ''/'', header_origin = None, header_sec_websocket_protocol = None\<rparr>)) = []
   \<and> filter is_write (fst (upgrade None \<lparr>query_token = Some ''abc'', query_server = Some [],
          pathname = Some ''/'', header_origin = None, header_sec_websocket_protocol = None\<rparr>))
       = [SocketWrite 400 ''Bad Request'' ''Missing server parameter'']
   \<and> filter is_write (fst (upgrade None \<lparr>query_token = Some ''abc'', query_server = Some ''WSS://x'',
          pathname = Some ''/'', header_origin = None, header_sec_websocket_protocol = None\<rparr>))
       = [SocketWrite 400 ''Bad Request'' ''Invalid server parameter (must start with ws:// or wss://)'']"
proof -
  let ?r1 = "\<lparr>query_token = Some [], query_server = None, pathname = Some ''/'',
          header_origin = None, header_sec_websocket_protocol = None\<rparr>"
  let ?r2 = "\<lparr>query_token = Some ''abc'', query_server = Some [], pathname = Some ''/'',
          header_origin = None, header_sec_websocket_protocol = None\<rparr>"
  let ?r3 = "\<lparr>query_token = Some ''abc'', query_server = Some ''WSS://x'', pathname = Some ''/'',
          header_origin = None, header_sec_websocket_protocol = None\<rparr>"
  note a = parameter_validation [of ?r1 None "''abc''" "''x''" True "\<lambda>address headers. Returns"]
  note b = parameter_validation [of ?r2 None "''abc''" "''x''" True "\<lambda>address headers. Returns"]
  note c = parameter_validation [of ?r3 None "''abc''" "''WSS://x''" True "\<lambda>address headers. Returns"]
  have "\<not> startsWith ''WSS://x'' ''ws://''" and "\<not> startsWith ''WSS://x'' ''wss://''"
    by (simp_all add: startsWith_def)
  with a b c show ?thesis by simp
qed

text \<open>
  The body written for a malformed \<^verbatim>\<open>server\<close> is not the bare text
  "Invalid server parameter".
\<close>

theorem invalid_server_body_counterexample:
  "snd (upgrade None \<lparr>query_token = Some ''abc'', query_server = Some ''http://x'', pathname = Some ''/'',
          header_origin = None, header_sec_websocket_protocol = None\<rparr>) = Rejected
   \<and> filter is_write (fst (upgrade None \<lparr>query_token = Some ''abc'', query_server = Some ''http://x'',
          pathname = Some ''/'', header_origin = None, header_sec_websocket_protocol = None\<rparr>))
       \<noteq> [SocketWrite 400 ''Bad Request'' ''Invalid server parameter'']"
  by (simp add: upgrade_def truthy_def startsWith_def)

section \<open>The origin allow-list\<close>

lemma split_nonempty: "split c s \<noteq> []"
  by (induction s) (auto split: list.splits)

lemma ALLOWED_ORIGINS_None: "ALLOWED_ORIGINS env = None \<longleftrightarrow> env = None \<or> env = Some []"
  by (auto simp add: ALLOWED_ORIGINS_def truthy_def split: option.splits)

lemma ALLOWED_ORIGINS_Some:
  "e \<noteq> [] \<Longrightarrow> ALLOWED_ORIGINS (Some e) = Some (split CHR '','' e)"
  by (simp add: ALLOWED_ORIGINS_def truthy_def)

lemma origin_rejected:
  "query_token r = Some t \<Longrightarrow> t \<noteq> [] \<Longrightarrow> query_server r = Some sv \<Longrightarrow>
   startsWith sv ''ws://'' \<or> startsWith sv ''wss://'' \<Longrightarrow>
   header_origin r = Some orig \<Longrightarrow> orig \<noteq> [] \<Longrightarrow> orig \<notin> set allow \<Longrightarrow> ''*'' \<notin> set allow \<Longrightarrow>
     snd (upgrade (Some allow) r) = Rejected
     \<and> filter is_write (fst (upgrade (Some allow) r)) = [SocketWrite 403 ''Forbidden'' ''Origin not allowed'']"
  by (auto simp add: upgrade_def truthy_def Let_def startsWith_def)

lemma origin_accepted:
  "query_token r = Some t \<Longrightarrow> t \<noteq> [] \<Longrightarrow> query_server r = Some sv \<Longrightarrow>
   startsWith sv ''ws://'' \<or> startsWith sv ''wss://'' \<Longrightarrow>
   allowed = None \<or> header_origin r = None \<or> header_origin r = Some []
     \<or> the (header_origin r) \<in> set (the allowed) \<or> ''*'' \<in> set (the allowed) \<Longrightarrow>
     upgrade allowed r =
       ([Log Info ''Incoming connection request''
           [(''origin'', meta_of (header_origin r)), (''path'', meta_of (pathname r)),
            (''hasToken'', MBool True), (''hasServer'', MBool True)]], Accepted t sv)"
  by (auto simp add: upgrade_def truthy_def Let_def startsWith_def)


text \<open>
  Claim C6, as the code has it. For a request that passes parameter validation: when the
  environment variable is set to a non-empty string and the request has a non-empty
  \<^verbatim>\<open>Origin\<close> header that is none of the comma-separated entries, and no entry is
  \<^verbatim>\<open>*\<close>, the request is answered with status 403 and the body "Origin not allowed";
  when the origin is an entry or an entry is \<^verbatim>\<open>*\<close>, the request is accepted; a
  request with no \<^verbatim>\<open>Origin\<close> header, or with an empty one, is accepted whatever the
  allow-list; and when the variable is unset or empty every request is accepted.
\<close>

theorem origin_allow_list:
  assumes "query_token r = Some t" and "t \<noteq> []" and "query_server r = Some sv"
    and "startsWith sv ''ws://'' \<or> startsWith sv ''wss://''"
  shows "(env = Some e \<and> e \<noteq> [] \<and> header_origin r = Some orig \<and> orig \<noteq> []
            \<and> orig \<notin> set (split CHR '','' e) \<and> ''*'' \<notin> set (split CHR '','' e) \<longrightarrow>
          snd (upgrade (ALLOWED_ORIGINS env) r) = Rejected
          \<and> filter is_write (fst (upgrade (ALLOWED_ORIGINS env) r))
              = [SocketWrite 403 ''Forbidden'' ''Origin not allowed''])
       \<and> (env = Some e \<and> e \<noteq> [] \<and> header_origin r = Some orig
            \<and> (orig \<in> set (split CHR '','' e) \<or> ''*'' \<in> set (split CHR '','' e)) \<longrightarrow>
          snd (upgrade (ALLOWED_ORIGINS env) r) = Accepted t sv)
       \<and> ((header_origin r = None \<or> header_origin r = Some []) \<longrightarrow>
          snd (upgrade (ALLOWED_ORIGINS env) r) = Accepted t sv)
       \<and> ((env = None \<or> env = Some []) \<longrightarrow>
          snd (upgrade (ALLOWED_ORIGINS env) r) = Accepted t sv)"
proof (intro conjI impI)
  assume a: "env = Some e \<and> e \<noteq> [] \<and> header_origin r = Some orig \<and> orig \<noteq> []
            \<and> orig \<notin> set (split CHR '','' e) \<and> ''*'' \<notin> set (split CHR '','' e)"
  then have al: "ALLOWED_ORIGINS env = Some (split CHR '','' e)" by (simp add: ALLOWED_ORIGINS_Some)
  from a origin_rejected [OF assms, of orig "split CHR '','' e"]
  show "snd (upgrade (ALLOWED_ORIGINS env) r) = Rejected"
    and "filter is_write (fst (upgrade (ALLOWED_ORIGINS env) r))
              = [SocketWrite 403 ''Forbidden'' ''Origin not allowed'']"
    unfolding al by simp_all
next
  assume a: "env = Some e \<and> e \<noteq> [] \<and> header_origin r = Some orig
            \<and> (orig \<in> set (split CHR '','' e) \<or> ''*'' \<in> set (split CHR '','' e))"
  then have al: "ALLOWED_ORIGINS env = Some (split CHR '','' e)" by (simp add: ALLOWED_ORIGINS_Some)
  from a have "the (header_origin r) \<in> set (the (ALLOWED_ORIGINS env))
      \<or> ''*'' \<in> set (the (ALLOWED_ORIGINS env))"
    unfolding al by auto
  then show "snd (upgrade (ALLOWED_ORIGINS env) r) = Accepted t sv"
    using origin_accepted [OF assms, of "ALLOWED_ORIGINS env"] by auto
next
  assume "header_origin r = None \<or> header_origin r = Some []"
  then show "snd (upgrade (ALLOWED_ORIGINS env) r) = Accepted t sv"
    using origin_accepted [OF assms, of "ALLOWED_ORIGINS env"] by auto
next
  assume "env = None \<or> env = Some []"
  then have "ALLOWED_ORIGINS env = None" by (simp add: ALLOWED_ORIGINS_None)
  then show "snd (upgrade (ALLOWED_ORIGINS env) r) = Accepted t sv"
    using origin_accepted [OF assms, of "ALLOWED_ORIGINS env"] by auto
qed

lemma split_example:
  "split CHR '','' ''https://a.com,https://c.com'' = [''https://a.com'', ''https://c.com'']"
  by simp

theorem origin_allow_list_witness:
  "snd (upgrade (ALLOWED_ORIGINS (Some ''https://a.com,https://c.com''))
         \<lparr>query_token = Some ''abc'', query_server = Some ''wss://x'', pathname = Some ''/'',
          header_origin = Some ''https://b.com'', header_sec_websocket_protocol = None\<rparr>) = Rejected
   \<and> filter is_write (fst (upgrade (ALLOWED_ORIGINS (Some ''https://a.com,https://c.com''))
         \<lparr>query_token = Some ''abc'', query_server = Some ''wss://x'', pathname = Some ''/'',
          header_origin = Some ''https://b.com'', header_sec_websocket_protocol = None\<rparr>))
       = [SocketWrite 403 ''Forbidden'' ''Origin not allowed'']
   \<and> snd (upgrade (ALLOWED_ORIGINS (Some ''https://a.com,https://c.com''))
         \<lparr>query_token = Some ''abc'', query_server = Some ''wss://x'', pathname = Some ''/'',
          header_origin = Some ''https://c.com'', header_sec_websocket_protocol = None\<rparr>)
       = Accepted ''abc'' ''wss://x''
   \<and> snd (upgrade (ALLOWED_ORIGINS (Some ''https://a.com,https://c.com''))
         \<lparr>query_token = Some ''abc'', query_server = Some ''wss://x'', pathname = Some ''/'',
          header_origin = None, header_sec_websocket_protocol = None\<rparr>)
       = Accepted ''abc'' ''wss://x''"
proof -
  let ?env = "Some ''https://a.com,https://c.com''"
  let ?r = "\<lambda>h. \<lparr>query_token = Some ''abc'', query_server = Some ''wss://x'', pathname = Some ''/'',
          header_origin = h, header_sec_websocket_protocol = None\<rparr>"
  have sw: "startsWith ''wss://x'' ''ws://'' \<or> startsWith ''wss://x'' ''wss://''"
    by (simp add: startsWith_def)
  have h: "query_token (?r h) = Some ''abc''" "''abc'' \<noteq> []" "query_server (?r h) = Some ''wss://x''"
    "startsWith ''wss://x'' ''ws://'' \<or> startsWith ''wss://x'' ''wss://''" for h
    using sw by simp_all
  note a = origin_allow_list [OF h, of ?env "''https://a.com,https://c.com''"
      "Some ''https://b.com''" "''https://b.com''"]
  note b = origin_allow_list [OF h, of ?env "''https://a.com,https://c.com''"
      "Some ''https://c.com''" "''https://c.com''"]
  note c = origin_allow_list [OF h, of ?env "''https://a.com,https://c.com''" None "[]"]
  from a b c show ?thesis by (simp add: split_example)
qed

text \<open>
  An \<^verbatim>\<open>Origin\<close> header that is present and empty is not an entry of the allow-list
  \<^verbatim>\<open>https://a.com\<close>, and the request is accepted all the same.
\<close>

theorem empty_origin_counterexample:
  "header_origin \<lparr>query_token = Some ''abc'', query_server = Some ''wss://x'', pathname = Some ''/'',
          header_origin = Some [], header_sec_websocket_protocol = None\<rparr> = Some []
   \<and> ALLOWED_ORIGINS (Some ''https://a.com'') = Some [''https://a.com'']
   \<and> snd (upgrade (ALLOWED_ORIGINS (Some ''https://a.com''))
         \<lparr>query_token = Some ''abc'', query_server = Some ''wss://x'', pathname = Some ''/'',
          header_origin = Some [], header_sec_websocket_protocol = None\<rparr>) = Accepted ''abc'' ''wss://x''"
  by (simp add: upgrade_def truthy_def startsWith_def ALLOWED_ORIGINS_def)


section \<open>The headers of the upstream handshake\<close>

lemma upgrade_accepted:
  "snd (upgrade allowed r) = Accepted t sv \<Longrightarrow>
     query_token r = Some t \<and> query_server r = Some sv \<and> filter is_connect (fst (upgrade allowed r)) = []"
  by (auto simp add: upgrade_def truthy_def Let_def split: if_splits option.splits)

lemma connection_connects:
  "connection constructs r t sv = Established s fx \<Longrightarrow>
     filter is_connect fx =
       [Connect sv ((''X-Auth-Token'', t) #
          (case header_sec_websocket_protocol r of
             None \<Rightarrow> []
           | Some p \<Rightarrow> if p = [] then [] else [(''Sec-WebSocket-Protocol'', p)]))]"
  by (auto simp add: connection_def truthy_def Let_def
           split: if_splits option.splits prod.splits constructed.splits)

lemma serve_session:
  "serve allowed completes constructs r = (fx, Some s) \<Longrightarrow>
     \<exists>t sv fx1 fx2. upgrade allowed r = (fx1, Accepted t sv)
       \<and> header_sec_websocket_protocol r \<noteq> Some []
       \<and> connection constructs r t sv = Established s fx2 \<and> fx = fx1 @ fx2"
  by (auto simp add: serve_def handleUpgrade_def
           split: prod.splits upgrade_result.splits connection_result.splits if_splits)

text \<open>
  Claim C3. When a request leads to a session, the upstream connection that is opened, to
  the \<^verbatim>\<open>server\<close> of the query string, carries the header \<^verbatim>\<open>X-Auth-Token\<close> with the
  \<^verbatim>\<open>token\<close> of the query string as its value; when the inbound handshake carried a
  \<^verbatim>\<open>Sec-WebSocket-Protocol\<close> header, the outbound one carries that header with the same
  value, and when it carried none, the outbound one has no such header.
\<close>

theorem header_injection:
  assumes "serve allowed completes constructs r = (fx, Some s)"
  shows "\<exists>t sv hs. query_token r = Some t \<and> query_server r = Some sv
           \<and> filter is_connect fx = [Connect sv hs]
           \<and> map_of hs ''X-Auth-Token'' = Some t
           \<and> (\<forall>p. header_sec_websocket_protocol r = Some p \<longrightarrow>
                 hs = [(''X-Auth-Token'', t), (''Sec-WebSocket-Protocol'', p)])
           \<and> (header_sec_websocket_protocol r = None \<longrightarrow> hs = [(''X-Auth-Token'', t)])"
proof -
  from serve_session [OF assms] obtain t sv fx1 fx2 where
    u: "upgrade allowed r = (fx1, Accepted t sv)"
    and ne: "header_sec_websocket_protocol r \<noteq> Some []"
    and c: "connection constructs r t sv = Established s fx2" and fx: "fx = fx1 @ fx2"
    by blast
  from u have "snd (upgrade allowed r) = Accepted t sv" and f1: "fst (upgrade allowed r) = fx1" by simp_all
  from upgrade_accepted [OF this(1)] f1
  have q: "query_token r = Some t" "query_server r = Some sv" and n: "filter is_connect fx1 = []"
    by simp_all
  let ?hs = "(''X-Auth-Token'', t) #
          (case header_sec_websocket_protocol r of
             None \<Rightarrow> []
           | Some p \<Rightarrow> if p = [] then [] else [(''Sec-WebSocket-Protocol'', p)])"
  from connection_connects [OF c] n fx have 1: "filter is_connect fx = [Connect sv ?hs]" by simp
  have 2: "map_of ?hs ''X-Auth-Token'' = Some t" by simp
  have 3: "\<forall>p. header_sec_websocket_protocol r = Some p \<longrightarrow>
                 ?hs = [(''X-Auth-Token'', t), (''Sec-WebSocket-Protocol'', p)]" using ne by auto
  have 4: "header_sec_websocket_protocol r = None \<longrightarrow> ?hs = [(''X-Auth-Token'', t)]" by auto
  show ?thesis
    by (rule exI [of _ t], rule exI [of _ sv], rule exI [of _ ?hs]) (use q 1 2 3 4 in blast)
qed

theorem header_injection_witness:
  "serve None True (\<lambda>address headers. Returns)
      \<lparr>query_token = Some ''secret-token'', query_server = Some ''wss://x'', pathname = Some ''/'',
       header_origin = None, header_sec_websocket_protocol = Some ''json''\<rparr>
    = ([Log Info ''Incoming connection request''
          [(''origin'', MUndefined), (''path'', MStr ''/''), (''hasToken'', MBool True),
           (''hasServer'', MBool True)],
        Log Info ''Client connected'' [(''server'', MStr ''wss://x''), (''token'', MStr ''secr...oken'')],
        Log Debug ''Connecting to upstream''
          [(''server'', MStr ''wss://x''), (''headers'', MObj [(''X-Auth-Token'', MStr ''secr...oken'')])],
        Connect ''wss://x'' [(''X-Auth-Token'', ''secret-token''), (''Sec-WebSocket-Protocol'', ''json'')]],
       Some fresh)
   \<and> (\<exists>hs. filter is_connect
         [Log Info ''Incoming connection request''
          [(''origin'', MUndefined), (''path'', MStr ''/''), (''hasToken'', MBool True),
           (''hasServer'', MBool True)],
        Log Info ''Client connected'' [(''server'', MStr ''wss://x''), (''token'', MStr ''secr...oken'')],
        Log Debug ''Connecting to upstream''
          [(''server'', MStr ''wss://x''), (''headers'', MObj [(''X-Auth-Token'', MStr ''secr...oken'')])],
        Connect ''wss://x'' [(''X-Auth-Token'', ''secret-token''), (''Sec-WebSocket-Protocol'', ''json'')]]
         = [Connect ''wss://x'' hs]
        \<and> hs = [(''X-Auth-Token'', ''secret-token''), (''Sec-WebSocket-Protocol'', ''json'')])"
proof -
  let ?r = "\<lparr>query_token = Some ''secret-token'', query_server = Some ''wss://x'', pathname = Some ''/'',
       header_origin = None, header_sec_websocket_protocol = Some ''json''\<rparr>"
  let ?fx = "[Log Info ''Incoming connection request''
          [(''origin'', MUndefined), (''path'', MStr ''/''), (''hasToken'', MBool True),
           (''hasServer'', MBool True)],
        Log Info ''Client connected'' [(''server'', MStr ''wss://x''), (''token'', MStr ''secr...oken'')],
        Log Debug ''Connecting to upstream''
          [(''server'', MStr ''wss://x''), (''headers'', MObj [(''X-Auth-Token'', MStr ''secr...oken'')])],
        Connect ''wss://x'' [(''X-Auth-Token'', ''secret-token''), (''Sec-WebSocket-Protocol'', ''json'')]]"
  have h: "serve None True (\<lambda>address headers. Returns) ?r = (?fx, Some fresh)"
    by (simp add: serve_def handleUpgrade_def upgrade_def connection_def truthy_def startsWith_def
        meta_of_def maskToken_def fresh_def)
  from header_injection [OF h] h show ?thesis by auto
qed

text \<open>
  A request with a \<^verbatim>\<open>Sec-WebSocket-Protocol\<close> header that is present and empty reaches
  no session: the library refuses its handshake.
\<close>

lemma empty_protocol_no_session:
  "header_sec_websocket_protocol r = Some [] \<Longrightarrow> snd (serve allowed completes constructs r) = None"
  by (auto simp add: serve_def handleUpgrade_def split: prod.splits upgrade_result.splits)

section \<open>Token masking\<close>

lemma maskToken_short: "length t \<le> 8 \<Longrightarrow> maskToken (Some t) = ''****''"
  by (simp add: maskToken_def)

lemma maskToken_long:
  "8 < length t \<Longrightarrow> maskToken (Some t) = take 4 t @ ''...'' @ drop (length t - 4) t"
  by (auto simp add: maskToken_def)

lemma maskToken_fixed_point:
  "maskToken (Some t) = t \<longleftrightarrow> t = ''****'' \<or> (length t = 11 \<and> take 3 (drop 4 t) = ''...'')"
proof (cases "length t \<le> 8")
  case True
  then show ?thesis by (auto simp add: maskToken_short)
next
  case False
  then have long: "8 < length t" by simp
  have ne: "t \<noteq> ''****''" using long by auto
  show ?thesis
  proof
    assume eq: "maskToken (Some t) = t"
    then have e: "take 4 t @ ''...'' @ drop (length t - 4) t = t" using long by (simp add: maskToken_long)
    have "length (take 4 t @ ''...'' @ drop (length t - 4) t) = 11" using long by simp
    with e have len: "length t = 11" by simp
    from e len have "drop 4 t = drop 4 (take 4 t @ ''...'' @ drop 7 t)" by simp
    also have "\<dots> = ''...'' @ drop 7 t" using len by simp
    finally have "take 3 (drop 4 t) = take 3 (''...'' @ drop 7 t)" by simp
    then have "take 3 (drop 4 t) = ''...''" by simp
    with len show "t = ''****'' \<or> (length t = 11 \<and> take 3 (drop 4 t) = ''...'')" by simp
  next
    assume "t = ''****'' \<or> (length t = 11 \<and> take 3 (drop 4 t) = ''...'')"
    with ne have len: "length t = 11" and mid: "take 3 (drop 4 t) = ''...''" by simp_all
    have a: "take 3 (drop 4 t) @ drop 3 (drop 4 t) = drop 4 t" by (rule append_take_drop_id)
    have b: "take 4 t @ drop 4 t = t" by (rule append_take_drop_id)
    have c: "drop 3 (drop 4 t) = drop 7 t" by simp
    from a have "drop 4 t = ''...'' @ drop 7 t" unfolding mid c by simp
    with b have "take 4 t @ ''...'' @ drop 7 t = t" by simp
    then show "maskToken (Some t) = t" using long len by (simp add: maskToken_long)
  qed
qed


lemma upgrade_token_change:
  "truthy (Some t) \<Longrightarrow> truthy (Some t') \<Longrightarrow>
     upgrade allowed (r\<lparr>query_token := Some t\<rparr>) = (fx, Rejected)
       \<longleftrightarrow> upgrade allowed (r\<lparr>query_token := Some t'\<rparr>) = (fx, Rejected)"
  "truthy (Some t) \<Longrightarrow> truthy (Some t') \<Longrightarrow>
     upgrade allowed (r\<lparr>query_token := Some t\<rparr>) = (fx, Accepted t sv)
       \<longleftrightarrow> upgrade allowed (r\<lparr>query_token := Some t'\<rparr>) = (fx, Accepted t' sv)"
  by (auto simp add: upgrade_def Let_def split: if_splits)

lemma absent_token_logs:
  "tok = None \<or> tok = Some [] \<Longrightarrow>
     filter is_log (fst (serve allowed completes constructs (r\<lparr>query_token := tok\<rparr>)))
       = [Log Info ''Incoming connection request''
            [(''origin'', meta_of (header_origin r)), (''path'', meta_of (pathname r)),
             (''hasToken'', MBool False), (''hasServer'', MBool (truthy (query_server r)))],
          Log Warn ''Rejected: Missing token parameter'' []]"
  by (auto simp add: serve_def upgrade_def truthy_def Let_def)

lemma connection_logs_depend_on_mask:
  assumes "maskToken (Some t) = maskToken (Some u)"
    and "\<forall>sv rest. constructs sv ((''X-Auth-Token'', t) # rest) = constructs sv ((''X-Auth-Token'', u) # rest)"
    and "header_sec_websocket_protocol r = header_sec_websocket_protocol r'"
  shows "(case connection constructs r t sv of
        Established s fx \<Rightarrow> filter is_log fx | Failed rs fx \<Rightarrow> filter is_log fx
      | Crashed fx \<Rightarrow> filter is_log fx)
     = (case connection constructs r' u sv of
        Established s fx \<Rightarrow> filter is_log fx | Failed rs fx \<Rightarrow> filter is_log fx
      | Crashed fx \<Rightarrow> filter is_log fx)"
  using assms
  by (simp add: connection_def Let_def ws_close_def isValidStatusCode_def split: constructed.splits)

lemma serve_logs_depend_on_mask:
  assumes "t \<noteq> []" and "u \<noteq> []" and "maskToken (Some t) = maskToken (Some u)"
    and "\<forall>sv rest. constructs sv ((''X-Auth-Token'', t) # rest) = constructs sv ((''X-Auth-Token'', u) # rest)"
  shows "filter is_log (fst (serve allowed completes constructs (r\<lparr>query_token := Some t\<rparr>)))
       = filter is_log (fst (serve allowed completes constructs (r\<lparr>query_token := Some u\<rparr>)))"
proof -
  have tt: "truthy (Some t)" and tu: "truthy (Some u)" using assms(1,2) by (simp_all add: truthy_def)
  obtain fx res where up: "upgrade allowed (r\<lparr>query_token := Some t\<rparr>) = (fx, res)"
    by (cases "upgrade allowed (r\<lparr>query_token := Some t\<rparr>)") auto
  show ?thesis
  proof (cases res)
    case Rejected
    with up upgrade_token_change(1) [OF tt tu, of allowed r fx]
    have "upgrade allowed (r\<lparr>query_token := Some u\<rparr>) = (fx, Rejected)" by simp
    with up Rejected show ?thesis by (simp add: serve_def)
  next
    case (Accepted a sv)
    with up have "a = t" by (auto simp add: upgrade_def Let_def split: if_splits)
    with up Accepted upgrade_token_change(2) [OF tt tu, of allowed r fx sv]
    have up': "upgrade allowed (r\<lparr>query_token := Some u\<rparr>) = (fx, Accepted u sv)" by simp
    have hp: "header_sec_websocket_protocol (r\<lparr>query_token := Some t\<rparr>)
        = header_sec_websocket_protocol (r\<lparr>query_token := Some u\<rparr>)" by simp
    have hu: "handleUpgrade completes (r\<lparr>query_token := Some t\<rparr>)
        = handleUpgrade completes (r\<lparr>query_token := Some u\<rparr>)" by (simp add: handleUpgrade_def)
    note c = connection_logs_depend_on_mask [OF assms(3) assms(4) hp, of sv]
    show ?thesis
    proof (cases "handleUpgrade completes (r\<lparr>query_token := Some t\<rparr>)")
      case False
      with hu up up' Accepted \<open>a = t\<close> show ?thesis by (simp add: serve_def)
    next
      case True
      with hu have "handleUpgrade completes (r\<lparr>query_token := Some u\<rparr>)" by simp
      with True c up up' Accepted \<open>a = t\<close> show ?thesis
        by (auto simp add: serve_def split: connection_result.splits)
    qed
  qed
qed

text \<open>
  Claim C9, as the code has it. A token of at most 8 characters is rendered as
  \<^verbatim>\<open>****\<close>, a longer one as its first 4 characters, three dots and its last 4
  characters. The rendering equals the token exactly for the token \<^verbatim>\<open>****\<close> and for
  the tokens of 11 characters whose characters 5 to 7 are three dots. The token is read
  by the upgrade handler and by the connection handler up to the creation of the upstream
  socket, and their log lines show it only through its rendering: two tokens with the
  same rendering, on which the constructor of the upstream socket does the same, give the
  same log lines, and an absent or empty token gives the two lines of the rejection, with
  \<^verbatim>\<open>hasToken\<close> false.
\<close>

theorem token_masking:
  "(length t \<le> 8 \<longrightarrow> maskToken (Some t) = ''****'')
   \<and> (8 < length t \<longrightarrow> maskToken (Some t) = take 4 t @ ''...'' @ drop (length t - 4) t)
   \<and> (maskToken (Some t) = t \<longleftrightarrow> t = ''****'' \<or> (length t = 11 \<and> take 3 (drop 4 t) = ''...''))
   \<and> (t \<noteq> [] \<and> u \<noteq> [] \<and> maskToken (Some t) = maskToken (Some u)
        \<and> (\<forall>sv rest. constructs sv ((''X-Auth-Token'', t) # rest)
                        = constructs sv ((''X-Auth-Token'', u) # rest)) \<longrightarrow>
        filter is_log (fst (serve allowed completes constructs (r\<lparr>query_token := Some t\<rparr>)))
          = filter is_log (fst (serve allowed completes constructs (r\<lparr>query_token := Some u\<rparr>))))
   \<and> (tok = None \<or> tok = Some [] \<longrightarrow>
        filter is_log (fst (serve allowed completes constructs (r\<lparr>query_token := tok\<rparr>)))
          = [Log Info ''Incoming connection request''
               [(''origin'', meta_of (header_origin r)), (''path'', meta_of (pathname r)),
                (''hasToken'', MBool False), (''hasServer'', MBool (truthy (query_server r)))],
             Log Warn ''Rejected: Missing token parameter'' []])"
  using maskToken_short [of t] maskToken_long [of t] maskToken_fixed_point [of t]
    serve_logs_depend_on_mask [of t u constructs allowed completes r]
    absent_token_logs [of tok allowed completes constructs r]
  by blast

theorem token_masking_witness:
  "maskToken (Some ''secret-token'') = ''secr...oken''
   \<and> maskToken (Some ''secret'') = ''****''
   \<and> maskToken (Some ''secret-token'') \<noteq> ''secret-token''
   \<and> maskToken (Some ''secret-token'') = maskToken (Some ''secrAAAoken'')
   \<and> filter is_log (fst (serve None True (\<lambda>address headers. Returns)
        (\<lparr>query_token = None, query_server = Some ''wss://x'', pathname = Some ''/'',
          header_origin = None, header_sec_websocket_protocol = None\<rparr>\<lparr>query_token := Some ''secret-token''\<rparr>)))
     = filter is_log (fst (serve None True (\<lambda>address headers. Returns)
        (\<lparr>query_token = None, query_server = Some ''wss://x'', pathname = Some ''/'',
          header_origin = None, header_sec_websocket_protocol = None\<rparr>\<lparr>query_token := Some ''secrAAAoken''\<rparr>)))"
proof -
  let ?r = "\<lparr>query_token = None, query_server = Some ''wss://x'', pathname = Some ''/'',
          header_origin = None, header_sec_websocket_protocol = None\<rparr>"
  have m: "maskToken (Some ''secret-token'') = maskToken (Some ''secrAAAoken'')"
    by (simp add: maskToken_def)
  have c: "\<forall>sv rest. (\<lambda>address headers. Returns) sv ((''X-Auth-Token'', ''secret-token'') # rest)
      = (\<lambda>address headers. Returns) sv ((''X-Auth-Token'', ''secrAAAoken'') # rest)" by simp
  note a = token_masking [of "''secret-token''" "''secrAAAoken''" "\<lambda>address headers. Returns"
      None True ?r None]
  note b = token_masking [of "''secret''" "''secrAAAoken''" "\<lambda>address headers. Returns"
      None True ?r None]
  from a b m c show ?thesis by simp
qed

text \<open>Two tokens whose masked form is the token itself.\<close>

theorem mask_equals_token_counterexample:
  "maskToken (Some ''****'') = ''****'' \<and> maskToken (Some ''abcd...wxyz'') = ''abcd...wxyz''"
  by (simp add: maskToken_def)

text \<open>
  Two tokens with the same rendering on which the constructor does not do the same: it
  throws on the one with a line feed, and only that request has the log line of the
  failure.
\<close>

lemma constructor_outcome_is_logged:
  "maskToken (Some (''secr'' @ [CHR 0x0A] @ ''AAoken'')) = maskToken (Some ''secrAAAoken'')
   \<and> filter is_log (fst (serve None True
        (\<lambda>address headers.
           if (''X-Auth-Token'', ''secrAAAoken'') \<in> set headers then Returns
           else Throws ''Invalid character in header content'')
        \<lparr>query_token = Some (''secr'' @ [CHR 0x0A] @ ''AAoken''), query_server = Some ''wss://x'',
          pathname = Some ''/'', header_origin = None, header_sec_websocket_protocol = None\<rparr>))
     \<noteq> filter is_log (fst (serve None True
        (\<lambda>address headers.
           if (''X-Auth-Token'', ''secrAAAoken'') \<in> set headers then Returns
           else Throws ''Invalid character in header content'')
        \<lparr>query_token = Some ''secrAAAoken'', query_server = Some ''wss://x'',
          pathname = Some ''/'', header_origin = None, header_sec_websocket_protocol = None\<rparr>))"
  by (simp add: maskToken_def serve_def handleUpgrade_def upgrade_def connection_def truthy_def
      startsWith_def ws_close_def isValidStatusCode_def)

end
